theory Spec2Isabelle
  imports Main
begin

section \<open>JavaScript values and HTTP replies\<close>

text \<open>
  The page script \<^verbatim>\<open>src/app.js\<close> maps DOM events to HTTP requests and back to DOM
  updates. The embedding passes the state explicitly: a \<open>world\<close> holds the document, the
  module variable \<open>lastSavedNotes\<close>, the console and the log of the requests issued.
  Every asynchronous function takes, beside the world, the reply the network gives to
  each request it may issue, in the order of the \<^verbatim>\<open>await\<close>s; a rejected promise and a
  thrown exception are the left summand of the result.

  Scope of the data: a property of a response object holds a string, \<^verbatim>\<open>null\<close> or is
  absent (\<^verbatim>\<open>undefined\<close>), as the interface of the two backends has it; a task is a
  record with an integer \<^verbatim>\<open>id\<close>, a string \<^verbatim>\<open>task\<close> and an integer \<^verbatim>\<open>finished\<close>.
  The set of elements of the document is fixed: an element found when the listeners were
  attached is the one found later.
\<close>

datatype error = AxiosError | TypeError

datatype jsval = Undefined | Null | Str string

text \<open>The operator \<^verbatim>\<open>a ?? b\<close>: only \<^verbatim>\<open>null\<close> and \<^verbatim>\<open>undefined\<close> fall through.\<close>

fun nullish :: "jsval \<Rightarrow> jsval \<Rightarrow> jsval" where
  "nullish Undefined b = b"
| "nullish Null b = b"
| "nullish (Str s) b = Str s"

text \<open>String conversion of a template literal \<^verbatim>\<open>`${v}`\<close>.\<close>

fun ToString :: "jsval \<Rightarrow> string" where
  "ToString Undefined = ''undefined''"
| "ToString Null = ''null''"
| "ToString (Str s) = s"

text \<open>
  Assignment to \<^verbatim>\<open>textContent\<close>, a nullable string attribute: \<^verbatim>\<open>null\<close> and
  \<^verbatim>\<open>undefined\<close> give the empty text.
\<close>

fun textContent_of :: "jsval \<Rightarrow> string" where
  "textContent_of (Str s) = s"
| "textContent_of v = []"

text \<open>
  The \<^verbatim>\<open>value\<close> of a textarea reads back with its newlines normalised: every CR LF
  pair and every other CR is a single LF.
\<close>

definition CR :: char where
  "CR = CHR 0x0D"

definition LF :: char where
  "LF = CHR 0x0A"

fun normalize_newlines :: "string \<Rightarrow> string" where
  "normalize_newlines [] = []"
| "normalize_newlines [c] = (if c = CR then [LF] else [c])"
| "normalize_newlines (c # d # cs) =
     (if c = CR then
        (if d = LF then LF # normalize_newlines cs else LF # normalize_newlines (d # cs))
      else c # normalize_newlines (d # cs))"

text \<open>
  Assignment to the \<^verbatim>\<open>value\<close> of a textarea, as the value reads back afterwards:
  \<^verbatim>\<open>null\<close> gives the empty string, \<^verbatim>\<open>undefined\<close> is converted as a string, and the
  newlines are normalised.
\<close>

fun value_of :: "jsval \<Rightarrow> string" where
  "value_of Null = []"
| "value_of v = normalize_newlines (ToString v)"

record Task =
  id_task :: int
  task :: string
  finished :: int

text \<open>
  \<^verbatim>\<open>response.data\<close>: absent, \<^verbatim>\<open>null\<close>, a primitive (string, number, boolean), an
  object, or an array of tasks.
\<close>

datatype data =
    DUndefined
  | DNull
  | DPrimitive
  | DObject "string \<Rightarrow> jsval"
  | DArray "Task list"

text \<open>
  \<^verbatim>\<open>data.k\<close> for the property names the script reads (\<^verbatim>\<open>quote\<close>, \<^verbatim>\<open>text\<close>,
  \<^verbatim>\<open>author\<close>, \<^verbatim>\<open>name\<close>, \<^verbatim>\<open>notes\<close>): a TypeError on \<^verbatim>\<open>null\<close> and \<^verbatim>\<open>undefined\<close>,
  \<^verbatim>\<open>undefined\<close> on a primitive or an array. \<^verbatim>\<open>data?.k\<close> gives \<^verbatim>\<open>undefined\<close> instead
  of the TypeError.
\<close>

fun get_prop :: "data \<Rightarrow> string \<Rightarrow> error + jsval" where
  "get_prop DUndefined k = Inl TypeError"
| "get_prop DNull k = Inl TypeError"
| "get_prop DPrimitive k = Inr Undefined"
| "get_prop (DObject obj) k = Inr (obj k)"
| "get_prop (DArray ts) k = Inr Undefined"

fun get_prop_opt :: "data \<Rightarrow> string \<Rightarrow> jsval" where
  "get_prop_opt DUndefined k = Undefined"
| "get_prop_opt DNull k = Undefined"
| "get_prop_opt DPrimitive k = Undefined"
| "get_prop_opt (DObject obj) k = obj k"
| "get_prop_opt (DArray ts) k = Undefined"

text \<open>The reply to a request: the promise rejects (\<open>Inl\<close>) or resolves with the data.\<close>

type_synonym reply = "error + data"

datatype request =
    GET_quotes string
  | GET_tasks
  | PATCH_tasks int int
  | POST_tasks string
  | GET_notes
  | PUT_notes string

section \<open>The document and the world\<close>

text \<open>
  A row of the task list: the checkbox state, the label text and the task \<open>t\<close> that the
  row's change listener closes over.
\<close>

record task_item =
  checked :: bool
  label :: string
  bound_task :: Task

text \<open>
  An element is \<open>None\<close> when the document does not have it. The text elements hold their
  \<^verbatim>\<open>textContent\<close>, the inputs their \<^verbatim>\<open>value\<close> (what reading it returns), the buttons
  their \<^verbatim>\<open>disabled\<close> flag, the list container its rows.
\<close>

record document =
  quote_text :: "string option"
  quote_author :: "string option"
  task_list :: "task_item list option"
  new_task :: "string option"
  add_task_btn :: "bool option"
  notes_text :: "string option"
  save_notes_btn :: "bool option"

record world =
  doc :: document
  lastSavedNotes :: jsval
  console :: "error list"
  requests :: "request list"

type_synonym 'a result = "(error + 'a) \<times> world"

definition console_error :: "error \<Rightarrow> world \<Rightarrow> world" where
  "console_error e w = w\<lparr>console := console w @ [e]\<rparr>"

text \<open>An axios call records the request and settles with the given reply.\<close>

definition axios :: "request \<Rightarrow> reply \<Rightarrow> world \<Rightarrow> data result" where
  "axios req r w = (r, w\<lparr>requests := requests w @ [req]\<rparr>)"

section \<open>Tasks\<close>

definition fetchTasks :: "reply \<Rightarrow> world \<Rightarrow> data result" where
  "fetchTasks r w = axios GET_tasks r w"

definition patchTaskFinished :: "int \<Rightarrow> int \<Rightarrow> reply \<Rightarrow> world \<Rightarrow> data result" where
  "patchTaskFinished i fin r w = axios (PATCH_tasks i fin) r w"

definition postNewTask :: "string \<Rightarrow> reply \<Rightarrow> world \<Rightarrow> data result" where
  "postNewTask taskText r w = axios (POST_tasks taskText) r w"

text \<open>The body of the \<^verbatim>\<open>forEach\<close> callback: the row built for one task.\<close>

definition render_item :: "Task \<Rightarrow> task_item" where
  "render_item t = \<lparr>checked = (finished t = 1), label = task t, bound_task = t\<rparr>"

fun forEach_append :: "Task list \<Rightarrow> task_item list \<Rightarrow> task_item list" where
  "forEach_append [] rows = rows"
| "forEach_append (t # ts) rows = forEach_append ts (rows @ [render_item t])"

text \<open>
  \<^verbatim>\<open>renderTaskList\<close>: nothing without the container; otherwise the container is emptied
  first, and \<^verbatim>\<open>tasks.forEach\<close> is a TypeError when \<open>tasks\<close> is not an array.
\<close>

definition renderTaskList :: "data \<Rightarrow> world \<Rightarrow> unit result" where
  "renderTaskList tasks w =
     (case task_list (doc w) of
        None \<Rightarrow> (Inr (), w)
      | Some old \<Rightarrow>
          (let w1 = w\<lparr>doc := (doc w)\<lparr>task_list := Some []\<rparr>\<rparr> in
           case tasks of
             DArray ts \<Rightarrow> (Inr (), w1\<lparr>doc := (doc w1)\<lparr>task_list := Some (forEach_append ts [])\<rparr>\<rparr>)
           | _ \<Rightarrow> (Inl TypeError, w1)))"

definition loadTasks :: "reply \<Rightarrow> world \<Rightarrow> unit result" where
  "loadTasks r w =
     (case fetchTasks r w of
        (Inl e, w1) \<Rightarrow> (Inr (), console_error e w1)
      | (Inr tasks, w1) \<Rightarrow>
          (case renderTaskList tasks w1 of
             (Inl e, w2) \<Rightarrow> (Inr (), console_error e w2)
           | (Inr u, w2) \<Rightarrow> (Inr (), w2)))"

text \<open>
  The change listener of a row's checkbox, for the task \<open>t\<close> of the row and the state
  \<^verbatim>\<open>e.target.checked\<close> of the checkbox.
\<close>

definition checkbox_change :: "Task \<Rightarrow> bool \<Rightarrow> reply \<Rightarrow> reply \<Rightarrow> world \<Rightarrow> unit result" where
  "checkbox_change t target_checked patch_reply tasks_reply w =
     (let newFinished = (if target_checked then 1 else 0) in
      case patchTaskFinished (id_task t) newFinished patch_reply w of
        (Inl e, w1) \<Rightarrow> loadTasks tasks_reply (console_error e w1)
      | (Inr d, w1) \<Rightarrow> loadTasks tasks_reply w1)"

text \<open>
  The user toggles the checkbox of row \<open>i\<close>: the browser flips the state of the checkbox
  and then runs the row's change listener.
\<close>

definition toggle_checkbox :: "nat \<Rightarrow> reply \<Rightarrow> reply \<Rightarrow> world \<Rightarrow> unit result" where
  "toggle_checkbox i patch_reply tasks_reply w =
     (case task_list (doc w) of
        None \<Rightarrow> (Inr (), w)
      | Some rows \<Rightarrow>
          if i < length rows then
            (let row = rows ! i;
                 c = (\<not> checked row);
                 w1 = w\<lparr>doc := (doc w)\<lparr>task_list := Some (rows[i := row\<lparr>checked := c\<rparr>])\<rparr>\<rparr>
             in checkbox_change (bound_task row) c patch_reply tasks_reply w1)
          else (Inr (), w))"

text \<open>
  \<^verbatim>\<open>String.prototype.trim\<close> on strings of code units below 256: white space and line
  terminators are TAB, LF, VT, FF, CR, SPACE and NBSP.
\<close>

definition is_white_space :: "char \<Rightarrow> bool" where
  "is_white_space c = (c \<in> {CHR 0x09, CHR 0x0A, CHR 0x0B, CHR 0x0C, CHR 0x0D, CHR 0x20, CHR 0xA0})"

definition trim :: "string \<Rightarrow> string" where
  "trim s = rev (dropWhile is_white_space (rev (dropWhile is_white_space s)))"

definition set_add_btn_disabled :: "bool \<Rightarrow> world \<Rightarrow> world" where
  "set_add_btn_disabled b w =
     (case add_task_btn (doc w) of
        None \<Rightarrow> w
      | Some old \<Rightarrow> w\<lparr>doc := (doc w)\<lparr>add_task_btn := Some b\<rparr>\<rparr>)"

definition handleAddTask :: "reply \<Rightarrow> reply \<Rightarrow> world \<Rightarrow> unit result" where
  "handleAddTask post_reply tasks_reply w =
     (case new_task (doc w) of
        None \<Rightarrow> (Inr (), w)
      | Some raw \<Rightarrow>
          (let taskText = trim raw in
           if length taskText = 0 then (Inr (), w)
           else
             (let w1 = set_add_btn_disabled True w;
                  w3 = (case postNewTask taskText post_reply w1 of
                          (Inr d, w2) \<Rightarrow> w2\<lparr>doc := (doc w2)\<lparr>new_task := Some []\<rparr>\<rparr>
                        | (Inl e, w2) \<Rightarrow> console_error e w2);
                  w4 = set_add_btn_disabled False w3
              in loadTasks tasks_reply w4)))"

section \<open>Notes\<close>

definition fetchNotes :: "reply \<Rightarrow> world \<Rightarrow> jsval result" where
  "fetchNotes r w =
     (case axios GET_notes r w of
        (Inl e, w1) \<Rightarrow> (Inl e, w1)
      | (Inr d, w1) \<Rightarrow> (Inr (nullish (get_prop_opt d ''notes'') (Str [])), w1))"

definition putNotes :: "string \<Rightarrow> reply \<Rightarrow> world \<Rightarrow> jsval result" where
  "putNotes notesText r w =
     (case axios (PUT_notes notesText) r w of
        (Inl e, w1) \<Rightarrow> (Inl e, w1)
      | (Inr d, w1) \<Rightarrow> (Inr (nullish (get_prop_opt d ''notes'') (Str notesText)), w1))"

definition setSaveNotesEnabled :: "bool \<Rightarrow> world \<Rightarrow> world" where
  "setSaveNotesEnabled enabled w =
     (case save_notes_btn (doc w) of
        None \<Rightarrow> w
      | Some old \<Rightarrow> w\<lparr>doc := (doc w)\<lparr>save_notes_btn := Some (\<not> enabled)\<rparr>\<rparr>)"

definition loadNotes :: "reply \<Rightarrow> world \<Rightarrow> unit result" where
  "loadNotes r w =
     (case notes_text (doc w) of
        None \<Rightarrow> (Inr (), w)
      | Some old \<Rightarrow>
          (case fetchNotes r w of
             (Inl e, w1) \<Rightarrow> (Inr (), console_error e w1)
           | (Inr notes, w1) \<Rightarrow>
               (let w2 = w1\<lparr>lastSavedNotes := notes\<rparr>;
                    w3 = w2\<lparr>doc := (doc w2)\<lparr>notes_text := Some (value_of notes)\<rparr>\<rparr>
                in (Inr (), setSaveNotesEnabled False w3))))"

text \<open>
  The input listener of the textarea, attached only when the textarea exists. The user's
  edit has set the value of the textarea to \<open>v\<close> before the listener runs.
\<close>

definition notes_input_listener :: "world \<Rightarrow> world" where
  "notes_input_listener w =
     (case notes_text (doc w) of
        None \<Rightarrow> w
      | Some v \<Rightarrow> setSaveNotesEnabled (Str v \<noteq> lastSavedNotes w) w)"

definition textarea_input :: "string \<Rightarrow> world \<Rightarrow> world" where
  "textarea_input v w =
     (case notes_text (doc w) of
        None \<Rightarrow> w
      | Some old \<Rightarrow> notes_input_listener (w\<lparr>doc := (doc w)\<lparr>notes_text := Some v\<rparr>\<rparr>))"

text \<open>The click listener of the save button.\<close>

definition save_click :: "reply \<Rightarrow> world \<Rightarrow> unit result" where
  "save_click r w =
     (let currentText = (case notes_text (doc w) of Some v \<Rightarrow> v | None \<Rightarrow> []) in
      case putNotes currentText r w of
        (Inl e, w1) \<Rightarrow> (Inr (), console_error e w1)
      | (Inr saved, w1) \<Rightarrow>
          (let w2 = w1\<lparr>lastSavedNotes := saved\<rparr>;
               w3 = (case notes_text (doc w2) of
                       None \<Rightarrow> w2
                     | Some old \<Rightarrow> w2\<lparr>doc := (doc w2)\<lparr>notes_text := Some (value_of saved)\<rparr>\<rparr>)
           in (Inr (), setSaveNotesEnabled False w3)))"

section \<open>Quote\<close>

definition dquote :: char where
  "dquote = CHR 0x22"

definition fallback_message :: string where
  "fallback_message = ''Oops... could not load quote.''"

text \<open>
  The \<^verbatim>\<open>catch\<close> block of \<^verbatim>\<open>loadQuote\<close>: an assignment to \<^verbatim>\<open>textContent\<close> of a
  missing element is a TypeError that leaves the block, before the error is logged.
\<close>

definition loadQuote_catch :: "error \<Rightarrow> world \<Rightarrow> unit result" where
  "loadQuote_catch e w =
     (case quote_text (doc w) of
        None \<Rightarrow> (Inl TypeError, w)
      | Some old \<Rightarrow>
          (let w1 = w\<lparr>doc := (doc w)\<lparr>quote_text := Some fallback_message\<rparr>\<rparr> in
           case quote_author (doc w1) of
             None \<Rightarrow> (Inl TypeError, w1)
           | Some old' \<Rightarrow>
               (Inr (), console_error e (w1\<lparr>doc := (doc w1)\<lparr>quote_author := Some []\<rparr>\<rparr>))))"

text \<open>
  The rest of the \<^verbatim>\<open>try\<close> block once \<^verbatim>\<open>response.data\<close> is there: the four
  property reads, the two defaults, the two assignments. The first failing step leaves the
  block with its error and the world as it is then.
\<close>

definition loadQuote_display :: "data \<Rightarrow> world \<Rightarrow> unit result" where
  "loadQuote_display d w =
     (case get_prop d ''quote'' of Inl e \<Rightarrow> (Inl e, w) | Inr q \<Rightarrow>
      case get_prop d ''text'' of Inl e \<Rightarrow> (Inl e, w) | Inr t \<Rightarrow>
      case get_prop d ''author'' of Inl e \<Rightarrow> (Inl e, w) | Inr a \<Rightarrow>
      case get_prop d ''name'' of Inl e \<Rightarrow> (Inl e, w) | Inr n \<Rightarrow>
        (let quoteText = nullish (nullish q t) (Str []);
             quoteAuthor = nullish (nullish a n) (Str [])
         in case quote_text (doc w) of
              None \<Rightarrow> (Inl TypeError, w)
            | Some old \<Rightarrow>
                (let w1 = w\<lparr>doc := (doc w)\<lparr>quote_text := Some ([dquote] @ ToString quoteText @ [dquote])\<rparr>\<rparr> in
                 case quote_author (doc w1) of
                   None \<Rightarrow> (Inl TypeError, w1)
                 | Some old' \<Rightarrow>
                     (Inr (), w1\<lparr>doc := (doc w1)\<lparr>quote_author := Some (textContent_of quoteAuthor)\<rparr>\<rparr>))))"

text \<open>\<^verbatim>\<open>loadQuote\<close>; the category is \<open>None\<close> when the argument is omitted.\<close>

definition loadQuote :: "string option \<Rightarrow> reply \<Rightarrow> world \<Rightarrow> unit result" where
  "loadQuote category r w =
     (let cat = (case category of None \<Rightarrow> ''general'' | Some c \<Rightarrow> c) in
      case axios (GET_quotes cat) r w of
        (Inl e, w1) \<Rightarrow> loadQuote_catch e w1
      | (Inr d, w1) \<Rightarrow>
          (case loadQuote_display d w1 of
             (Inl e, w2) \<Rightarrow> loadQuote_catch e w2
           | (Inr u, w2) \<Rightarrow> (Inr (), w2)))"

section \<open>Words of the specification and example data\<close>

text \<open>
  The server holds the list \<open>srv\<close> when the reload's \<^verbatim>\<open>GET /tasks\<close> is issued; the
  network delivers its answer or fails.
\<close>

definition tasks_response :: "Task list \<Rightarrow> bool \<Rightarrow> reply" where
  "tasks_response srv delivered = (if delivered then Inr (DArray srv) else Inl AxiosError)"

definition server_states :: "Task list \<Rightarrow> bool list" where
  "server_states srv = map (\<lambda>t. finished t = 1) srv"

definition checkbox_states :: "world \<Rightarrow> bool list" where
  "checkbox_states w = (case task_list (doc w) of None \<Rightarrow> [] | Some rows \<Rightarrow> map checked rows)"

text \<open>
  The specification's choice between two field-name variants: the first field, else the
  second field, else the empty string.
\<close>

definition first_else_second :: "jsval \<Rightarrow> jsval \<Rightarrow> string" where
  "first_else_second a b =
     (case a of Str s \<Rightarrow> s | _ \<Rightarrow> (case b of Str t \<Rightarrow> t | _ \<Rightarrow> []))"

definition is_nullish :: "jsval \<Rightarrow> bool" where
  "is_nullish v = (v = Undefined \<or> v = Null)"

definition page :: document where
  "page = \<lparr>quote_text = Some [], quote_author = Some [], task_list = Some [],
            new_task = Some [], add_task_btn = Some False,
            notes_text = Some [], save_notes_btn = Some True\<rparr>"

definition start :: world where
  "start = \<lparr>doc = page, lastSavedNotes = Str [], console = [], requests = []\<rparr>"

definition milk :: Task where
  "milk = \<lparr>id_task = 1, task = ''Buy milk'', finished = 0\<rparr>"

definition milk_world :: world where
  "milk_world = start\<lparr>doc := page\<lparr>task_list := Some [render_item milk]\<rparr>\<rparr>"

definition no_fields :: "string \<Rightarrow> jsval" where
  "no_fields k = Undefined"

section \<open>The task list\<close>

lemma forEach_append_map: "forEach_append ts rows = rows @ map render_item ts"
  by (induction ts arbitrary: rows) simp_all

lemma loadTasks_returns: "fst (loadTasks r w) = Inr ()"
  by (simp add: loadTasks_def fetchTasks_def axios_def renderTaskList_def Let_def
      split: sum.splits option.splits data.splits)

lemma loadTasks_requests: "requests (snd (loadTasks r w)) = requests w @ [GET_tasks]"
  by (simp add: loadTasks_def fetchTasks_def axios_def renderTaskList_def Let_def console_error_def
      split: sum.splits option.splits data.splits)

lemma loadTasks_console: "\<exists>es. console (snd (loadTasks r w)) = console w @ es"
  by (simp add: loadTasks_def fetchTasks_def axios_def renderTaskList_def Let_def console_error_def
      split: sum.splits option.splits data.splits)

lemma loadTasks_frame:
  "new_task (doc (snd (loadTasks r w))) = new_task (doc w)"
  "add_task_btn (doc (snd (loadTasks r w))) = add_task_btn (doc w)"
  "notes_text (doc (snd (loadTasks r w))) = notes_text (doc w)"
  "save_notes_btn (doc (snd (loadTasks r w))) = save_notes_btn (doc w)"
  "quote_text (doc (snd (loadTasks r w))) = quote_text (doc w)"
  "quote_author (doc (snd (loadTasks r w))) = quote_author (doc w)"
  "lastSavedNotes (snd (loadTasks r w)) = lastSavedNotes w"
  by (simp_all add: loadTasks_def fetchTasks_def axios_def renderTaskList_def Let_def console_error_def
      split: sum.splits option.splits data.splits)

text \<open>
  The task list after \<^verbatim>\<open>loadTasks\<close>: kept on a rejected fetch, one row per task on an
  array, emptied when the data is not an array (the container is cleared before
  \<^verbatim>\<open>forEach\<close> fails).
\<close>

lemma loadTasks_task_list:
  "task_list (doc (snd (loadTasks r w))) =
     (case task_list (doc w) of
        None \<Rightarrow> None
      | Some old \<Rightarrow>
          (case r of
             Inl e \<Rightarrow> Some old
           | Inr (DArray ts) \<Rightarrow> Some (map render_item ts)
           | Inr _ \<Rightarrow> Some []))"
  by (simp add: loadTasks_def fetchTasks_def axios_def renderTaskList_def Let_def console_error_def
      forEach_append_map split: sum.splits option.splits data.splits)

text \<open>
  C10. Without the \<^verbatim>\<open>.task-list\<close> container, \<^verbatim>\<open>renderTaskList\<close> returns normally and
  leaves the whole world as it was, whatever it is given to render (a list of tasks or
  anything else).
\<close>

theorem renderTaskList_no_container:
  "task_list (doc w) = None \<Longrightarrow> renderTaskList tasks w = (Inr (), w)"
  by (simp add: renderTaskList_def)

theorem renderTaskList_no_container_witness:
  "task_list (doc (start\<lparr>doc := page\<lparr>task_list := None\<rparr>\<rparr>)) = None \<and>
   renderTaskList (DArray [milk]) (start\<lparr>doc := page\<lparr>task_list := None\<rparr>\<rparr>)
     = (Inr (), start\<lparr>doc := page\<lparr>task_list := None\<rparr>\<rparr>)"
  using renderTaskList_no_container [of "start\<lparr>doc := page\<lparr>task_list := None\<rparr>\<rparr>" "DArray [milk]"]
  by simp

text \<open>
  C1, as amended. Toggling the checkbox of a rendered row never throws and issues, whatever
  the outcome of the patch, first \<^verbatim>\<open>PATCH /tasks/:id\<close> for the row's task with the new
  checked state as 0 or 1, then the reload's \<^verbatim>\<open>GET /tasks\<close>. When the reload's fetch
  delivers the server's list, the rendered checkbox states are the server's
  \<^verbatim>\<open>finished\<close> values.
\<close>

theorem toggle_checkbox_reload:
  assumes "task_list (doc w) = Some rows" and "i < length rows"
  shows "fst (toggle_checkbox i patch_reply tasks_reply w) = Inr () \<and>
         requests (snd (toggle_checkbox i patch_reply tasks_reply w)) =
           requests w @ [PATCH_tasks (id_task (bound_task (rows ! i)))
                           (if checked (rows ! i) then 0 else 1), GET_tasks] \<and>
         (tasks_reply = tasks_response srv True \<longrightarrow>
            checkbox_states (snd (toggle_checkbox i patch_reply tasks_reply w)) = server_states srv)"
proof -
  let ?row = "rows ! i"
  let ?w1 = "w\<lparr>doc := (doc w)\<lparr>task_list := Some (rows[i := ?row\<lparr>checked := \<not> checked ?row\<rparr>])\<rparr>\<rparr>"
  have run: "toggle_checkbox i patch_reply tr w =
             checkbox_change (bound_task ?row) (\<not> checked ?row) patch_reply tr ?w1" for tr
    using assms by (simp add: toggle_checkbox_def Let_def)
  have ret: "fst (checkbox_change t c patch_reply tasks_reply v) = Inr ()" for t c v
    by (simp add: checkbox_change_def patchTaskFinished_def axios_def Let_def loadTasks_returns
        split: sum.splits)
  have req: "requests (snd (checkbox_change t c patch_reply tasks_reply v)) =
             requests v @ [PATCH_tasks (id_task t) (if c then 1 else 0), GET_tasks]" for t c v
    by (simp add: checkbox_change_def patchTaskFinished_def axios_def Let_def loadTasks_requests
        console_error_def split: sum.splits)
  have shown: "checkbox_states (snd (checkbox_change t c patch_reply (Inr (DArray srv)) v)) =
               server_states srv" if "task_list (doc v) = Some old" for t c v old
    using that
    by (simp add: checkbox_change_def patchTaskFinished_def axios_def Let_def loadTasks_task_list
        console_error_def checkbox_states_def server_states_def render_item_def comp_def
        split: sum.splits)
  have "task_list (doc ?w1) = Some (rows[i := ?row\<lparr>checked := \<not> checked ?row\<rparr>])"
    by simp
  from shown [OF this] ret req show ?thesis
    by (simp add: run tasks_response_def)
qed

theorem toggle_checkbox_reload_witness:
  "task_list (doc milk_world) = Some [render_item milk] \<and> (0::nat) < length [render_item milk] \<and>
   fst (toggle_checkbox 0 (Inl AxiosError) (tasks_response [milk] True) milk_world) = Inr () \<and>
   requests (snd (toggle_checkbox 0 (Inl AxiosError) (tasks_response [milk] True) milk_world)) =
     [PATCH_tasks 1 1, GET_tasks] \<and>
   checkbox_states (snd (toggle_checkbox 0 (Inl AxiosError) (tasks_response [milk] True) milk_world)) =
     [False]"
proof -
  have h: "task_list (doc milk_world) = Some [render_item milk]"
    by (simp add: milk_world_def start_def page_def)
  have l: "(0::nat) < length [render_item milk]"
    by simp
  show ?thesis
    using h toggle_checkbox_reload [OF h l, of "Inl AxiosError" "tasks_response [milk] True" "[milk]"]
    by (simp add: milk_world_def start_def page_def render_item_def milk_def server_states_def)
qed

text \<open>
  C1 as stated fails when the reload itself fails. The list shows the task of \<open>milk\<close>
  unchecked, as the server has it; the user checks the box; the patch is rejected, so the
  server still has \<^verbatim>\<open>finished = 0\<close>; the reload's fetch is rejected too. The checkbox
  stays checked: the page shows the just-clicked value, not the server's.
\<close>

theorem toggle_checkbox_reload_counterexample:
  "checkbox_states (snd (toggle_checkbox 0 (Inl AxiosError) (tasks_response [milk] False) milk_world))
     \<noteq> server_states [milk]"
  by (simp add: toggle_checkbox_def checkbox_change_def patchTaskFinished_def axios_def
      loadTasks_def fetchTasks_def console_error_def tasks_response_def checkbox_states_def
      server_states_def milk_world_def start_def page_def render_item_def milk_def Let_def)

lemma toggle_checkbox_reload_rejected:
  assumes "task_list (doc w) = Some rows" and "i < length rows"
  shows "checkbox_states (snd (toggle_checkbox i patch_reply (Inl e) w)) =
         (map checked rows)[i := \<not> checked (rows ! i)]"
  using assms
  by (simp add: toggle_checkbox_def checkbox_change_def patchTaskFinished_def axios_def Let_def
      loadTasks_task_list checkbox_states_def map_update console_error_def split: sum.splits)

text \<open>
  C7. A rejected fetch in \<^verbatim>\<open>loadTasks\<close> or \<^verbatim>\<open>loadNotes\<close> leaves the document (so the
  task list and the textarea) and \<open>lastSavedNotes\<close> as they were; the function returns
  normally, and the error of the fetch is logged (\<^verbatim>\<open>loadNotes\<close> fetches only when the
  textarea exists).
\<close>

theorem load_rejected_preserves:
  "fst (loadTasks (Inl e) w) = Inr () \<and>
   doc (snd (loadTasks (Inl e) w)) = doc w \<and>
   lastSavedNotes (snd (loadTasks (Inl e) w)) = lastSavedNotes w \<and>
   console (snd (loadTasks (Inl e) w)) = console w @ [e] \<and>
   fst (loadNotes (Inl e) w) = Inr () \<and>
   doc (snd (loadNotes (Inl e) w)) = doc w \<and>
   lastSavedNotes (snd (loadNotes (Inl e) w)) = lastSavedNotes w \<and>
   console (snd (loadNotes (Inl e) w)) =
     (case notes_text (doc w) of None \<Rightarrow> console w | Some v \<Rightarrow> console w @ [e])"
  by (simp add: loadTasks_def fetchTasks_def loadNotes_def fetchNotes_def axios_def
      console_error_def split: option.splits)

section \<open>Adding a task\<close>

lemma trim_blank: "(\<forall>c \<in> set s. is_white_space c) \<Longrightarrow> trim s = []"
  by (auto simp add: trim_def dest: set_dropWhileD)

lemma trim_empty_iff: "trim s = [] \<longleftrightarrow> (\<forall>c \<in> set s. is_white_space c)"
proof
  assume e: "trim s = []"
  show "\<forall>c \<in> set s. is_white_space c"
  proof (cases "dropWhile is_white_space s")
    case Nil
    then show ?thesis by simp
  next
    case (Cons x xs)
    then have "\<not> is_white_space x"
      using hd_dropWhile [of is_white_space s] by simp
    moreover have "is_white_space x"
      using e Cons by (simp add: trim_def)
    ultimately show ?thesis by simp
  qed
qed (rule trim_blank)

text \<open>
  C5. When the value of the new-task input trims to the empty string, \<^verbatim>\<open>handleAddTask\<close>
  returns with the world as it was: no request is recorded (no POST, no reload), and the
  input, the add button and the task list are untouched.
\<close>

theorem handleAddTask_blank:
  "new_task (doc w) = Some raw \<Longrightarrow> trim raw = [] \<Longrightarrow>
   handleAddTask post_reply tasks_reply w = (Inr (), w)"
  by (simp add: handleAddTask_def)

theorem handleAddTask_blank_witness:
  "new_task (doc (start\<lparr>doc := page\<lparr>new_task := Some ''  ''\<rparr>\<rparr>)) = Some ''  '' \<and>
   trim ''  '' = [] \<and>
   handleAddTask (Inr DPrimitive) (Inr (DArray [milk])) (start\<lparr>doc := page\<lparr>new_task := Some ''  ''\<rparr>\<rparr>)
     = (Inr (), start\<lparr>doc := page\<lparr>new_task := Some ''  ''\<rparr>\<rparr>)"
proof -
  have t: "trim ''  '' = []"
    by (simp add: trim_def is_white_space_def)
  show ?thesis
    using t handleAddTask_blank [of "start\<lparr>doc := page\<lparr>new_task := Some ''  ''\<rparr>\<rparr>" "''  ''",
        OF _ t, of "Inr DPrimitive" "Inr (DArray [milk])"]
    by simp
qed

text \<open>
  C6. With an input that does not trim to the empty string and a rejected POST,
  \<^verbatim>\<open>handleAddTask\<close> returns normally, the input keeps its text, the add button (when the
  document has it) ends enabled, and the error of the POST is logged. Whatever the
  outcome of the POST, the requests issued are the POST of the trimmed text and then the
  reload's \<^verbatim>\<open>GET /tasks\<close>, and the task list is reloaded: when the document has the
  container, it ends with one row per task of the list the fetch delivers (checkbox checked
  exactly for \<^verbatim>\<open>finished = 1\<close>, label the task text), it is kept when the fetch is
  rejected, and it ends empty when the data is not an array.
\<close>

theorem handleAddTask_post_rejected:
  assumes "new_task (doc w) = Some raw" and "trim raw \<noteq> []"
  shows "fst (handleAddTask (Inl e) tasks_reply w) = Inr () \<and>
         new_task (doc (snd (handleAddTask (Inl e) tasks_reply w))) = Some raw \<and>
         add_task_btn (doc (snd (handleAddTask (Inl e) tasks_reply w))) =
           map_option (\<lambda>b. False) (add_task_btn (doc w)) \<and>
         (\<exists>es. console (snd (handleAddTask (Inl e) tasks_reply w)) = console w @ e # es) \<and>
         requests (snd (handleAddTask post_reply tasks_reply w)) =
           requests w @ [POST_tasks (trim raw), GET_tasks] \<and>
         task_list (doc (snd (handleAddTask post_reply tasks_reply w))) =
           (case task_list (doc w) of
              None \<Rightarrow> None
            | Some old \<Rightarrow>
                (case tasks_reply of
                   Inl e' \<Rightarrow> Some old
                 | Inr (DArray srv) \<Rightarrow>
                     Some (map (\<lambda>t. \<lparr>checked = (finished t = 1), label = task t, bound_task = t\<rparr>) srv)
                 | Inr _ \<Rightarrow> Some []))"
proof -
  let ?w4 = "set_add_btn_disabled False
               (console_error e
                  ((set_add_btn_disabled True w)\<lparr>requests := requests w @ [POST_tasks (trim raw)]\<rparr>))"
  have run: "handleAddTask (Inl e) tasks_reply w = loadTasks tasks_reply ?w4"
    using assms
    by (simp add: handleAddTask_def postNewTask_def axios_def Let_def set_add_btn_disabled_def
        console_error_def split: option.splits)
  have input: "new_task (doc ?w4) = Some raw"
    using assms by (simp add: set_add_btn_disabled_def console_error_def split: option.splits)
  have button: "add_task_btn (doc ?w4) = map_option (\<lambda>b. False) (add_task_btn (doc w))"
    by (simp add: set_add_btn_disabled_def console_error_def split: option.splits)
  have logged: "console ?w4 = console w @ [e]"
    by (simp add: set_add_btn_disabled_def console_error_def split: option.splits)
  obtain es where "console (snd (loadTasks tasks_reply ?w4)) = console ?w4 @ es"
    using loadTasks_console by blast
  then have console: "\<exists>es. console (snd (handleAddTask (Inl e) tasks_reply w)) = console w @ e # es"
    by (simp add: run logged)
  obtain v where any: "handleAddTask post_reply tasks_reply w = loadTasks tasks_reply v"
    and v_req: "requests v = requests w @ [POST_tasks (trim raw)]"
    and v_list: "task_list (doc v) = task_list (doc w)"
    using assms
    by (cases post_reply)
      (simp_all add: handleAddTask_def postNewTask_def axios_def Let_def set_add_btn_disabled_def
        console_error_def split: option.splits)
  have "requests (snd (handleAddTask post_reply tasks_reply w)) =
          requests w @ [POST_tasks (trim raw), GET_tasks]"
    by (simp add: any loadTasks_requests v_req)
  moreover have "task_list (doc (snd (handleAddTask post_reply tasks_reply w))) =
           (case task_list (doc w) of
              None \<Rightarrow> None
            | Some old \<Rightarrow>
                (case tasks_reply of
                   Inl e' \<Rightarrow> Some old
                 | Inr (DArray srv) \<Rightarrow>
                     Some (map (\<lambda>t. \<lparr>checked = (finished t = 1), label = task t, bound_task = t\<rparr>) srv)
                 | Inr _ \<Rightarrow> Some []))"
  proof -
    have row: "map render_item ts =
          map (\<lambda>t. \<lparr>checked = (finished t = 1), label = task t, bound_task = t\<rparr>) ts" for ts
      by (simp add: render_item_def)
    show ?thesis
      by (simp add: any loadTasks_task_list v_list row split: option.splits sum.splits data.splits)
  qed
  ultimately show ?thesis
    using console by (simp add: run loadTasks_returns loadTasks_frame input button)
qed

theorem handleAddTask_post_rejected_witness:
  "new_task (doc (start\<lparr>doc := page\<lparr>new_task := Some '' Buy milk''\<rparr>\<rparr>)) = Some '' Buy milk'' \<and>
   trim '' Buy milk'' \<noteq> [] \<and>
   new_task (doc (snd (handleAddTask (Inl AxiosError) (Inr (DArray [milk]))
      (start\<lparr>doc := page\<lparr>new_task := Some '' Buy milk''\<rparr>\<rparr>)))) = Some '' Buy milk'' \<and>
   add_task_btn (doc (snd (handleAddTask (Inl AxiosError) (Inr (DArray [milk]))
      (start\<lparr>doc := page\<lparr>new_task := Some '' Buy milk''\<rparr>\<rparr>)))) = Some False \<and>
   requests (snd (handleAddTask (Inl AxiosError) (Inr (DArray [milk]))
      (start\<lparr>doc := page\<lparr>new_task := Some '' Buy milk''\<rparr>\<rparr>))) =
     [POST_tasks ''Buy milk'', GET_tasks] \<and>
   task_list (doc (start\<lparr>doc := page\<lparr>new_task := Some '' Buy milk''\<rparr>\<rparr>)) = Some [] \<and>
   task_list (doc (snd (handleAddTask (Inl AxiosError) (Inr (DArray [milk]))
      (start\<lparr>doc := page\<lparr>new_task := Some '' Buy milk''\<rparr>\<rparr>)))) =
     Some [\<lparr>checked = False, label = ''Buy milk'', bound_task = milk\<rparr>]"
proof -
  have t: "trim '' Buy milk'' = ''Buy milk''"
    by (simp add: trim_def is_white_space_def)
  have n: "trim '' Buy milk'' \<noteq> []"
    by (simp add: t)
  have h: "new_task (doc (start\<lparr>doc := page\<lparr>new_task := Some '' Buy milk''\<rparr>\<rparr>)) = Some '' Buy milk''"
    by simp
  show ?thesis
    using handleAddTask_post_rejected [OF h n, of AxiosError "Inr (DArray [milk])" "Inl AxiosError"]
    by (simp add: t start_def page_def milk_def)
qed

section \<open>The notes editor\<close>

text \<open>
  C4. After an input event of the textarea that leaves it with the value \<open>v\<close>, the save
  button is enabled exactly when \<open>v\<close> differs from \<open>lastSavedNotes\<close>; the event changes
  neither \<open>lastSavedNotes\<close> nor the value.
\<close>

theorem textarea_input_dirty:
  assumes "notes_text (doc w) = Some old" and "save_notes_btn (doc w) = Some b"
  shows "save_notes_btn (doc (textarea_input v w)) = Some (\<not> (Str v \<noteq> lastSavedNotes w)) \<and>
         notes_text (doc (textarea_input v w)) = Some v \<and>
         lastSavedNotes (textarea_input v w) = lastSavedNotes w"
  using assms
  by (simp add: textarea_input_def notes_input_listener_def setSaveNotesEnabled_def)

theorem textarea_input_dirty_witness:
  "notes_text (doc (start\<lparr>lastSavedNotes := Str ''hello''\<rparr>)) = Some [] \<and>
   save_notes_btn (doc (start\<lparr>lastSavedNotes := Str ''hello''\<rparr>)) = Some True \<and>
   save_notes_btn (doc (textarea_input ''hello!'' (start\<lparr>lastSavedNotes := Str ''hello''\<rparr>))) = Some False \<and>
   save_notes_btn (doc (textarea_input ''hello'' (start\<lparr>lastSavedNotes := Str ''hello''\<rparr>))) = Some True"
proof -
  have h1: "notes_text (doc (start\<lparr>lastSavedNotes := Str ''hello''\<rparr>)) = Some []"
    by (simp add: start_def page_def)
  have h2: "save_notes_btn (doc (start\<lparr>lastSavedNotes := Str ''hello''\<rparr>)) = Some True"
    by (simp add: start_def page_def)
  show ?thesis
    using h1 h2 textarea_input_dirty [OF h1 h2, of "''hello!''"]
      textarea_input_dirty [OF h1 h2, of "''hello''"]
    by simp
qed

lemma normalize_newlines_no_CR: "CR \<notin> set s \<Longrightarrow> normalize_newlines s = s"
  by (induction s rule: normalize_newlines.induct) auto

text \<open>
  C3, as amended. The click listener of the save button never throws. When the PUT
  resolves, \<open>lastSavedNotes\<close> becomes the \<^verbatim>\<open>notes\<close> string of the response, or the text
  that was sent when the response has none; the textarea (when the document has it) is
  assigned that string and then holds it with its newlines normalised, which is the same
  string whenever it has no carriage return; the save button ends disabled. When the PUT
  is rejected, the document and \<open>lastSavedNotes\<close> are unchanged and the error is logged.
\<close>

theorem save_click_outcomes:
  "fst (save_click r w) = Inr () \<and>
   (case r of
      Inr d \<Rightarrow>
        (let sent = (case notes_text (doc w) of Some v \<Rightarrow> v | None \<Rightarrow> []);
             saved = (case get_prop_opt d ''notes'' of Str s \<Rightarrow> s | _ \<Rightarrow> sent)
         in lastSavedNotes (snd (save_click r w)) = Str saved \<and>
            notes_text (doc (snd (save_click r w))) =
              map_option (\<lambda>v. normalize_newlines saved) (notes_text (doc w)) \<and>
            (CR \<notin> set saved \<longrightarrow>
               notes_text (doc (snd (save_click r w))) = map_option (\<lambda>v. saved) (notes_text (doc w))) \<and>
            save_notes_btn (doc (snd (save_click r w))) =
              map_option (\<lambda>b. True) (save_notes_btn (doc w)) \<and>
            requests (snd (save_click r w)) = requests w @ [PUT_notes sent] \<and>
            console (snd (save_click r w)) = console w)
    | Inl e \<Rightarrow>
        lastSavedNotes (snd (save_click r w)) = lastSavedNotes w \<and>
        doc (snd (save_click r w)) = doc w \<and>
        console (snd (save_click r w)) = console w @ [e])"
proof (cases r)
  case (Inl e)
  then show ?thesis
    by (simp add: save_click_def putNotes_def axios_def console_error_def Let_def)
next
  case (Inr d)
  then show ?thesis
    by (cases "get_prop_opt d ''notes''")
      (auto simp add: save_click_def putNotes_def axios_def setSaveNotesEnabled_def Let_def
        normalize_newlines_no_CR split: option.splits)
qed

theorem save_click_outcomes_witness:
  "CR \<notin> set ''hello!'' \<and>
   lastSavedNotes (snd (save_click (Inr (DObject (no_fields(''notes'' := Str ''hello!''))))
      (start\<lparr>doc := page\<lparr>notes_text := Some ''hello! '', save_notes_btn := Some False\<rparr>\<rparr>))) = Str ''hello!'' \<and>
   notes_text (doc (snd (save_click (Inr (DObject (no_fields(''notes'' := Str ''hello!''))))
      (start\<lparr>doc := page\<lparr>notes_text := Some ''hello! '', save_notes_btn := Some False\<rparr>\<rparr>)))) = Some ''hello!'' \<and>
   save_notes_btn (doc (snd (save_click (Inr (DObject (no_fields(''notes'' := Str ''hello!''))))
      (start\<lparr>doc := page\<lparr>notes_text := Some ''hello! '', save_notes_btn := Some False\<rparr>\<rparr>)))) = Some True \<and>
   doc (snd (save_click (Inl AxiosError)
      (start\<lparr>doc := page\<lparr>notes_text := Some ''hello! '', save_notes_btn := Some False\<rparr>\<rparr>))) =
     page\<lparr>notes_text := Some ''hello! '', save_notes_btn := Some False\<rparr>"
proof -
  have c: "CR \<notin> set ''hello!''"
    by (simp add: CR_def)
  show ?thesis
    using c
      save_click_outcomes [of "Inr (DObject (no_fields(''notes'' := Str ''hello!'')))"
        "start\<lparr>doc := page\<lparr>notes_text := Some ''hello! '', save_notes_btn := Some False\<rparr>\<rparr>"]
      save_click_outcomes [of "Inl AxiosError"
        "start\<lparr>doc := page\<lparr>notes_text := Some ''hello! '', save_notes_btn := Some False\<rparr>\<rparr>"]
    by (simp add: Let_def CR_def)
qed

text \<open>
  C3 as stated fails when the echoed string has a carriage return. The server echoes the
  two lines \<^verbatim>\<open>a\<close> and \<^verbatim>\<open>b\<close> separated by CR LF: \<open>lastSavedNotes\<close> keeps the CR, the
  textarea reads back with a single LF, so after the save the value of the textarea is
  not the value of \<open>lastSavedNotes\<close>.
\<close>

theorem save_click_echo_counterexample:
  "map_option Str (notes_text (doc (snd (save_click
      (Inr (DObject (no_fields(''notes'' := Str [CHR ''a'', CR, LF, CHR ''b''])))) start)))) \<noteq>
   Some (lastSavedNotes (snd (save_click
      (Inr (DObject (no_fields(''notes'' := Str [CHR ''a'', CR, LF, CHR ''b''])))) start)))"
  by (simp add: save_click_def putNotes_def axios_def setSaveNotesEnabled_def Let_def
      start_def page_def CR_def LF_def)

section \<open>The quote\<close>

lemma loadQuote_display_ok:
  assumes "quote_text (doc w) = Some old" and "quote_author (doc w) = Some old'"
    and "d \<noteq> DUndefined" and "d \<noteq> DNull"
  shows "loadQuote_display d w =
     (Inr (), w\<lparr>doc := (doc w)\<lparr>
        quote_text := Some ([dquote] @
          ToString (nullish (nullish (get_prop_opt d ''quote'') (get_prop_opt d ''text'')) (Str [])) @ [dquote]),
        quote_author := Some (textContent_of
          (nullish (nullish (get_prop_opt d ''author'') (get_prop_opt d ''name'')) (Str [])))\<rparr>\<rparr>)"
  using assms by (cases d) (simp_all add: loadQuote_display_def Let_def)

lemma nullish_first_else_second:
  "ToString (nullish (nullish a b) (Str [])) = first_else_second a b"
  "textContent_of (nullish (nullish a b) (Str [])) = first_else_second a b"
  by (cases a; cases b; simp add: first_else_second_def)+

text \<open>
  C8. For a response whose data is there (not \<^verbatim>\<open>null\<close> or \<^verbatim>\<open>undefined\<close>) and a document
  with both quote elements, \<^verbatim>\<open>loadQuote\<close> returns normally, shows the \<^verbatim>\<open>quote\<close> field,
  else the \<^verbatim>\<open>text\<close> field, else the empty string, between two double-quote characters,
  and shows as author the \<^verbatim>\<open>author\<close> field, else the \<^verbatim>\<open>name\<close> field, else the empty
  string. When both variants of a pair are missing the displayed value is the empty
  string (between the two double-quote characters for the text).
\<close>

theorem loadQuote_displays:
  assumes "quote_text (doc w) = Some old" and "quote_author (doc w) = Some old'"
    and "d \<noteq> DUndefined" and "d \<noteq> DNull"
  shows "fst (loadQuote category (Inr d) w) = Inr () \<and>
         quote_text (doc (snd (loadQuote category (Inr d) w))) =
           Some ([dquote] @ first_else_second (get_prop_opt d ''quote'') (get_prop_opt d ''text'') @ [dquote]) \<and>
         quote_author (doc (snd (loadQuote category (Inr d) w))) =
           Some (first_else_second (get_prop_opt d ''author'') (get_prop_opt d ''name'')) \<and>
         (is_nullish (get_prop_opt d ''quote'') \<and> is_nullish (get_prop_opt d ''text'') \<longrightarrow>
            quote_text (doc (snd (loadQuote category (Inr d) w))) = Some [dquote, dquote]) \<and>
         (is_nullish (get_prop_opt d ''author'') \<and> is_nullish (get_prop_opt d ''name'') \<longrightarrow>
            quote_author (doc (snd (loadQuote category (Inr d) w))) = Some [])"
proof -
  have "quote_text (doc (w\<lparr>requests := rs\<rparr>)) = Some old" "quote_author (doc (w\<lparr>requests := rs\<rparr>)) = Some old'" for rs
    using assms by simp_all
  note shown = loadQuote_display_ok [OF this assms(3,4)]
  have run: "fst (loadQuote category (Inr d) w) = Inr () \<and>
         quote_text (doc (snd (loadQuote category (Inr d) w))) =
           Some ([dquote] @ first_else_second (get_prop_opt d ''quote'') (get_prop_opt d ''text'') @ [dquote]) \<and>
         quote_author (doc (snd (loadQuote category (Inr d) w))) =
           Some (first_else_second (get_prop_opt d ''author'') (get_prop_opt d ''name''))"
    by (simp add: loadQuote_def axios_def Let_def shown nullish_first_else_second)
  have "first_else_second a b = []" if "is_nullish a" "is_nullish b" for a b
    using that by (auto simp add: is_nullish_def first_else_second_def)
  with run show ?thesis
    by simp
qed

theorem loadQuote_displays_witness:
  "quote_text (doc start) = Some [] \<and> quote_author (doc start) = Some [] \<and>
   DObject no_fields \<noteq> DUndefined \<and> DObject no_fields \<noteq> DNull \<and>
   is_nullish (get_prop_opt (DObject no_fields) ''quote'') \<and>
   is_nullish (get_prop_opt (DObject no_fields) ''text'') \<and>
   is_nullish (get_prop_opt (DObject no_fields) ''author'') \<and>
   is_nullish (get_prop_opt (DObject no_fields) ''name'') \<and>
   quote_text (doc (snd (loadQuote (Some ''general'') (Inr (DObject no_fields)) start))) =
     Some [dquote, dquote] \<and>
   quote_author (doc (snd (loadQuote (Some ''general'') (Inr (DObject no_fields)) start))) = Some []"
proof -
  have h1: "quote_text (doc start) = Some []" and h2: "quote_author (doc start) = Some []"
    by (simp_all add: start_def page_def)
  have h3: "DObject no_fields \<noteq> DUndefined" and h4: "DObject no_fields \<noteq> DNull"
    by simp_all
  show ?thesis
    using h1 h2 loadQuote_displays [OF h1 h2 h3 h4, of "Some ''general''"]
    by (simp add: is_nullish_def no_fields_def first_else_second_def)
qed

text \<open>
  C9. With both quote elements in the document and an object as response data: a string
  in \<^verbatim>\<open>quote\<close> is shown whatever \<^verbatim>\<open>text\<close> holds, the empty string included; the
  \<^verbatim>\<open>text\<close> string is shown only when \<^verbatim>\<open>quote\<close> is \<^verbatim>\<open>null\<close> or \<^verbatim>\<open>undefined\<close>.
  The same holds for \<^verbatim>\<open>author\<close> before \<^verbatim>\<open>name\<close>.
\<close>

theorem loadQuote_precedence:
  assumes "quote_text (doc w) = Some old" and "quote_author (doc w) = Some old'"
  shows "(obj ''quote'' = Str q \<longrightarrow>
            quote_text (doc (snd (loadQuote category (Inr (DObject obj)) w))) = Some ([dquote] @ q @ [dquote])) \<and>
         (is_nullish (obj ''quote'') \<and> obj ''text'' = Str t \<longrightarrow>
            quote_text (doc (snd (loadQuote category (Inr (DObject obj)) w))) = Some ([dquote] @ t @ [dquote])) \<and>
         (obj ''author'' = Str a \<longrightarrow>
            quote_author (doc (snd (loadQuote category (Inr (DObject obj)) w))) = Some a) \<and>
         (is_nullish (obj ''author'') \<and> obj ''name'' = Str n \<longrightarrow>
            quote_author (doc (snd (loadQuote category (Inr (DObject obj)) w))) = Some n)"
proof -
  have "quote_text (doc (w\<lparr>requests := rs\<rparr>)) = Some old" "quote_author (doc (w\<lparr>requests := rs\<rparr>)) = Some old'" for rs
    using assms by simp_all
  note shown = loadQuote_display_ok [OF this, of "DObject obj"]
  show ?thesis
    by (auto simp add: loadQuote_def axios_def Let_def shown is_nullish_def)
qed

theorem loadQuote_precedence_witness:
  "quote_text (doc start) = Some [] \<and> quote_author (doc start) = Some [] \<and>
   quote_text (doc (snd (loadQuote (Some ''general'')
      (Inr (DObject (no_fields(''quote'' := Str [], ''text'' := Str ''Be kind.'',
                               ''author'' := Str [], ''name'' := Str ''Anon'')))) start))) =
     Some [dquote, dquote] \<and>
   quote_author (doc (snd (loadQuote (Some ''general'')
      (Inr (DObject (no_fields(''quote'' := Str [], ''text'' := Str ''Be kind.'',
                               ''author'' := Str [], ''name'' := Str ''Anon'')))) start))) =
     Some [] \<and>
   quote_text (doc (snd (loadQuote (Some ''general'')
      (Inr (DObject (no_fields(''quote'' := Null, ''text'' := Str ''Be kind.'', ''name'' := Str ''Anon'')))) start))) =
     Some ([dquote] @ ''Be kind.'' @ [dquote]) \<and>
   quote_author (doc (snd (loadQuote (Some ''general'')
      (Inr (DObject (no_fields(''quote'' := Null, ''text'' := Str ''Be kind.'', ''name'' := Str ''Anon'')))) start))) =
     Some ''Anon''"
proof -
  have h1: "quote_text (doc start) = Some []" and h2: "quote_author (doc start) = Some []"
    by (simp_all add: start_def page_def)
  show ?thesis
    using h1 h2
      loadQuote_precedence [OF h1 h2, of
        "no_fields(''quote'' := Str [], ''text'' := Str ''Be kind.'', ''author'' := Str [], ''name'' := Str ''Anon'')"
        "[]" "Some ''general''" "''Be kind.''" "[]" "''Anon''"]
      loadQuote_precedence [OF h1 h2, of
        "no_fields(''quote'' := Null, ''text'' := Str ''Be kind.'', ''name'' := Str ''Anon'')"
        "[]" "Some ''general''" "''Be kind.''" "[]" "''Anon''"]
    by (simp add: is_nullish_def no_fields_def)
qed

text \<open>
  When the request is rejected or the data is \<^verbatim>\<open>null\<close> or \<^verbatim>\<open>undefined\<close>, and the document
  has both quote elements, \<^verbatim>\<open>loadQuote\<close> shows the fallback message, clears the author,
  logs the error and returns normally.
\<close>

lemma loadQuote_failure_fallback:
  assumes "quote_text (doc w) = Some old" and "quote_author (doc w) = Some old'"
    and "r = Inl e \<or> (r = Inr DNull \<or> r = Inr DUndefined) \<and> e = TypeError"
  shows "loadQuote category r w =
     (Inr (), w\<lparr>doc := (doc w)\<lparr>quote_text := Some fallback_message, quote_author := Some []\<rparr>,
                 console := console w @ [e],
                 requests := requests w @ [GET_quotes (case category of None \<Rightarrow> ''general'' | Some c \<Rightarrow> c)]\<rparr>)"
  using assms
  by (auto simp add: loadQuote_def axios_def Let_def loadQuote_display_def loadQuote_catch_def
      console_error_def)

text \<open>
  Without one of the two quote elements \<^verbatim>\<open>loadQuote\<close> throws on every reply, and logs
  nothing: the \<^verbatim>\<open>catch\<close> block assigns to the missing element before it logs.
\<close>

lemma loadQuote_missing_element_throws:
  assumes "quote_text (doc w) = None \<or> quote_author (doc w) = None"
  shows "fst (loadQuote category r w) = Inl TypeError \<and>
         console (snd (loadQuote category r w)) = console w"
proof (cases r)
  case (Inl e)
  then show ?thesis
    using assms
    by (auto simp add: loadQuote_def axios_def Let_def loadQuote_catch_def split: option.splits)
next
  case (Inr d)
  then show ?thesis
    using assms
    by (cases d)
      (auto simp add: loadQuote_def axios_def Let_def loadQuote_display_def loadQuote_catch_def
        split: option.splits)
qed

text \<open>
  C2 at the failing inputs. In a document without the \<^verbatim>\<open>quote-author\<close> element and with
  a rejected request, \<^verbatim>\<open>loadQuote\<close> writes the fallback message and then throws a
  TypeError out of its \<^verbatim>\<open>catch\<close> block, with nothing logged; in a document without the
  \<^verbatim>\<open>quote-text\<close> element it throws the same way, even on a good response.
\<close>

theorem loadQuote_missing_target_throws:
  "loadQuote (Some ''general'') (Inl AxiosError) (start\<lparr>doc := page\<lparr>quote_author := None\<rparr>\<rparr>) =
     (Inl TypeError,
      start\<lparr>doc := page\<lparr>quote_author := None, quote_text := Some fallback_message\<rparr>,
            requests := [GET_quotes ''general'']\<rparr>) \<and>
   loadQuote (Some ''general'')
       (Inr (DObject (no_fields(''text'' := Str ''Be kind.'', ''name'' := Str ''Anon''))))
       (start\<lparr>doc := page\<lparr>quote_text := None\<rparr>\<rparr>) =
     (Inl TypeError, start\<lparr>doc := page\<lparr>quote_text := None\<rparr>, requests := [GET_quotes ''general'']\<rparr>)"
  by (simp add: loadQuote_def axios_def Let_def loadQuote_display_def loadQuote_catch_def
      start_def page_def no_fields_def)

end
